theory Spec2Isabelle
  imports Main
begin

section \<open>JavaScript values\<close>

text \<open>
  The values that travel over the event bus and through promise rejections. An
  \<open>Error\<close> object is identified by its message, every other object by an opaque
  label. A thrown exception and a rejected promise both carry such a value, so the
  result of a fallible operation is \<open>jsval + 'a\<close> with \<open>Inl\<close> the thrown value.
\<close>

datatype jsval =
    JUndefined
  | JNull
  | JBool bool
  | JNumber int
  | JString string
  | JError string
  | JObject string

text \<open>The \<open>typeof\<close> operator.\<close>

fun typeof :: "jsval \<Rightarrow> string" where
  "typeof JUndefined = ''undefined''"
| "typeof JNull = ''object''"
| "typeof (JBool b) = ''boolean''"
| "typeof (JNumber n) = ''number''"
| "typeof (JString s) = ''string''"
| "typeof (JError e) = ''object''"
| "typeof (JObject x) = ''object''"

text \<open>Truthiness, as the left operand of \<open>&&\<close> is read.\<close>

fun truthy :: "jsval \<Rightarrow> bool" where
  "truthy JUndefined = False"
| "truthy JNull = False"
| "truthy (JBool b) = b"
| "truthy (JNumber n) = (n \<noteq> 0)"
| "truthy (JString s) = (s \<noteq> [])"
| "truthy (JError e) = True"
| "truthy (JObject x) = True"

section \<open>Connection session manager (state/tonConnect.ts)\<close>

text \<open>
  Modelled from the spec: the declaration of \<open>AccountConnection\<close> lives in the core
  package. The spec gives it a \<open>clientSessionId\<close>, a \<open>webViewUrl\<close> and further session
  parameters, of which the manifest's url stands for the rest.
\<close>

record accountConnection =
  clientSessionId :: string
  webViewUrl :: "string option"
  manifestUrl :: string

text \<open>\<open>Pick<TonWalletStandard, 'publicKey' | 'id'>\<close>\<close>

record tonWalletStandard =
  wallet_id :: string
  wallet_publicKey :: string

text \<open>
  Modelled from the spec: the storage collaborator and the two accessors
  \<open>getTonWalletConnections\<close> and \<open>setAccountConnection\<close> of the core package. The spec
  describes a key-value persistence holding one connection list per wallet, keyed by
  the wallet's id. Reading and writing always succeed.
\<close>

type_synonym storage = "string \<Rightarrow> accountConnection list"

definition getTonWalletConnections :: "storage \<Rightarrow> tonWalletStandard \<Rightarrow> accountConnection list" where
  "getTonWalletConnections st wallet = st (wallet_id wallet)"

definition setAccountConnection ::
  "storage \<Rightarrow> tonWalletStandard \<Rightarrow> accountConnection list \<Rightarrow> storage" where
  "setAccountConnection st wallet connections = st(wallet_id wallet := connections)"

text \<open>The argument \<open>connection: AccountConnection | 'all'\<close>.\<close>

datatype target = AllConnections | Specific accountConnection

text \<open>
  \<open>disconnectFromWallet\<close>: reads the wallet's list, chooses what is reported as
  disconnected, writes the retained list back and returns the reported list. The
  storage after the write is returned beside it.
\<close>

definition disconnectFromWallet ::
  "storage \<Rightarrow> target \<Rightarrow> tonWalletStandard \<Rightarrow> accountConnection list \<times> storage" where
  "disconnectFromWallet st connection wallet =
     (let connections = getTonWalletConnections st wallet;
          connectionsToDisconnect =
            (case connection of AllConnections \<Rightarrow> connections | Specific c \<Rightarrow> [c]);
          connections' =
            (case connection of
               AllConnections \<Rightarrow> []
             | Specific c \<Rightarrow>
                 filter
                   (\<lambda>item. list_all (\<lambda>c. clientSessionId c \<noteq> clientSessionId item)
                      connectionsToDisconnect)
                   connections)
      in (connectionsToDisconnect, setAccountConnection st wallet connections'))"

text \<open>
  The active wallet is a \<open>TonContract\<close>; \<open>isStandardTonWallet\<close> narrows it to a
  \<open>TonWalletStandard\<close>. Modelled from the spec: both declarations live in the core
  package; a contract that is not a standard wallet is known by its id only.
\<close>

datatype tonContract = StandardWallet tonWalletStandard | OtherContract string

fun isStandardTonWallet :: "tonContract \<Rightarrow> bool" where
  "isStandardTonWallet (StandardWallet w) = True"
| "isStandardTonWallet (OtherContract i) = False"

text \<open>
  Modelled from the spec: the account declarations live in the core package. Every
  account, of whatever kind, has its derived wallets (\<open>allTonWallets\<close>, which line 46
  reads off every account); \<open>isAccountTonWalletStandard\<close> tells the standard
  TON-wallet accounts from the others, which are known by an id. A wallet of another
  account is given by the same two fields, of which the storage reads the id.
\<close>

datatype account =
    AccountTonWalletStandard "tonWalletStandard list"
  | AccountOther string "tonWalletStandard list"

fun isAccountTonWalletStandard :: "account \<Rightarrow> bool" where
  "isAccountTonWalletStandard (AccountTonWalletStandard ws) = True"
| "isAccountTonWalletStandard (AccountOther i ws) = False"

fun allTonWallets :: "account \<Rightarrow> tonWalletStandard list" where
  "allTonWallets (AccountTonWalletStandard ws) = ws"
| "allTonWallets (AccountOther i ws) = ws"

text \<open>
  \<open>Promise.all(wallets.map(w => disconnectFromWallet(storage, connection, w)))\<close>:
  one result per wallet, in the wallets' order. \<open>map\<close> starts every call, and each
  runs to its first \<open>await\<close>, the read of its wallet's list; so every read is issued
  before any write and each call reads the storage \<open>st\<close> as it was. Each call then
  returns what \<open>disconnectFromWallet\<close> returns on \<open>st\<close> and writes, to its wallet's
  key, the list that \<open>disconnectFromWallet\<close> writes on \<open>st\<close>; the writes land in the
  wallets' order.
\<close>

definition disconnectFromWallets ::
  "storage \<Rightarrow> target \<Rightarrow> tonWalletStandard list \<Rightarrow> accountConnection list list \<times> storage" where
  "disconnectFromWallets st connection ws =
     (map (\<lambda>w. fst (disconnectFromWallet st connection w)) ws,
      fold (\<lambda>w s. setAccountConnection s w
                     (getTonWalletConnections (snd (disconnectFromWallet st connection w)) w))
        ws st)"

text \<open>
  What the hook \<open>useDisconnectTonConnectApp\<close> reads and writes: the storage, the
  values pushed on the subject \<open>tonConnectAppManuallyDisconnected$\<close>, the session ids
  handed to the push service's \<open>unsubscribeTonConnect\<close>, and the number of query
  invalidations.
\<close>

record app =
  app_storage :: storage
  manuallyDisconnected :: "accountConnection list list"
  unsubscribed :: "string list"
  invalidations :: nat

text \<open>
  Lines 193 to 204 of the mutation: the value of the local \<open>connectionsToDisconnect\<close>
  and the storage it leaves, for \<open>sdk.targetEnv\<close>, the narrowed active wallet and the
  accounts of \<open>useAccountsState()\<close>, which line 187 filters by
  \<open>isAccountTonWalletStandard\<close>.
\<close>

definition connectionsToDisconnect ::
  "string \<Rightarrow> storage \<Rightarrow> target \<Rightarrow> tonWalletStandard \<Rightarrow> account list
     \<Rightarrow> accountConnection list \<times> storage" where
  "connectionsToDisconnect targetEnv st connection wallet accounts =
     (if targetEnv \<noteq> ''extension'' then disconnectFromWallet st connection wallet
      else
        (let (rs, st') =
               disconnectFromWallets st connection
                 (concat (map allTonWallets (filter isAccountTonWalletStandard accounts)))
         in (concat rs, st')))"

text \<open>
  The mutation of \<open>useDisconnectTonConnectApp\<close>. \<open>skipEmit\<close> is \<open>options?.skipEmit\<close>,
  \<open>notifications\<close> says whether \<open>sdk.notifications\<close> is present (a failing
  unsubscription is caught and logged there, so it changes nothing here).
\<close>

definition disconnectTonConnectApp ::
  "string \<Rightarrow> bool \<Rightarrow> bool \<Rightarrow> tonContract \<Rightarrow> account list \<Rightarrow> target \<Rightarrow> app \<Rightarrow> jsval + app" where
  "disconnectTonConnectApp targetEnv notifications skipEmit wallet accounts connection a =
     (case wallet of
        OtherContract i \<Rightarrow> Inl (JError ''Only standard ton wallets can be disconnected'')
      | StandardWallet w \<Rightarrow>
          (let (toDisconnect, st') =
                 connectionsToDisconnect targetEnv (app_storage a) connection w accounts;
               a1 = a\<lparr>app_storage := st'\<rparr>;
               a2 = (if \<not> skipEmit
                     then a1\<lparr>manuallyDisconnected := manuallyDisconnected a1 @ [toDisconnect]\<rparr>
                     else a1);
               a3 = (if notifications
                     then a2\<lparr>unsubscribed := unsubscribed a2 @ map clientSessionId toDisconnect\<rparr>
                     else a2)
           in Inr (a3\<lparr>invalidations := Suc (invalidations a3)\<rparr>)))"

section \<open>Signer factory and notification-paired channel (state/mnemonic.ts)\<close>

subsection \<open>Data\<close>

text \<open>\<open>AuthState\<close>: the code reads its \<open>kind\<close> only.\<close>

datatype authState = AuthState (kind: string)

type_synonym cell = string
type_synonym ledgerTransaction = string

text \<open>What a request event carries in \<open>params\<close>, one constructor per channel.\<close>

datatype request_params =
    PasswordParams authState
  | SignerParams string
  | LedgerParams "int list" ledgerTransaction

record request =
  req_method :: string
  req_id :: int
  req_params :: request_params

text \<open>
  A message on the \<open>response\<close> topic: \<open>{method: 'response', id?: number, params}\<close>.
\<close>

record response =
  resp_id :: "int option"
  resp_params :: jsval

text \<open>
  The three \<open>onCallback\<close> closures, each with the promise it settles (a handle) and
  the \<open>id\<close> it captured.
\<close>

datatype listener =
    PasswordCallback nat int
  | SignerCallback nat int
  | LedgerCallback nat int

fun handle_of :: "listener \<Rightarrow> nat" where
  "handle_of (PasswordCallback p i) = p"
| "handle_of (SignerCallback p i) = p"
| "handle_of (LedgerCallback p i) = p"

fun captured_id :: "listener \<Rightarrow> int" where
  "captured_id (PasswordCallback p i) = i"
| "captured_id (SignerCallback p i) = i"
| "captured_id (LedgerCallback p i) = i"

datatype settlement = Resolve jsval | Reject jsval

text \<open>
  Effects that leave the module, in the order they happen: an event emitted on a
  request topic, the pending transaction stored for the signer application, the
  assignment to \<open>window.location\<close>, and a \<open>delay\<close> in milliseconds.
\<close>

datatype effect =
    Emit string request
  | StoreTransaction string string
  | SetLocation string
  | Delay nat

text \<open>
  The state the module works on: the effects so far, the listeners subscribed on the
  \<open>response\<close> topic (in subscription order), every call of a promise's \<open>resolve\<close> or
  \<open>reject\<close> (in order, with the promise's handle), and the next free handle.
\<close>

record world =
  trace :: "effect list"
  responseListeners :: "listener list"
  settled :: "(nat \<times> settlement) list"
  nextPromise :: nat

text \<open>
  Collaborators of the core package and of the crypto libraries, as the module calls
  them. \<open>getWalletMnemonic\<close> takes the public key and the password (for \<open>none\<close> the
  kind itself); \<open>signCell\<close> is \<open>mnemonicToPrivateKey\<close> followed by \<open>sign\<close> of the
  message's hash; \<open>toBoc\<close> is \<open>message.toBoc({ idx: false }).toString('base64')\<close>;
  \<open>createDeepLink\<close> is the link that \<open>storeTransactionAndCreateDeepLink\<close> returns.
\<close>

record collaborators =
  getWalletAuthState :: "string \<Rightarrow> jsval + authState"
  getWalletMnemonic :: "string \<Rightarrow> jsval \<Rightarrow> jsval + string list"
  keychain :: "(string \<Rightarrow> jsval + string) option"
  parseSignerSignature :: "jsval \<Rightarrow> jsval + string"
  signCell :: "string list \<Rightarrow> cell \<Rightarrow> jsval + string"
  toBoc :: "cell \<Rightarrow> string"
  createDeepLink :: "string \<Rightarrow> string \<Rightarrow> string"

subsection \<open>The event bus\<close>

text \<open>
  Modelled from the spec: \<open>sdk.uiEvents\<close>, the publish/subscribe bus of the core
  package. \<open>on\<close> appends a listener to the topic, \<open>off\<close> removes it, \<open>emit\<close> calls
  the listeners subscribed when the emission starts, in subscription order. The
  subscribers of the request topics are the user interface and are not part of the
  module: an emission on a request topic is recorded in the trace.
\<close>

definition on_response :: "listener \<Rightarrow> world \<Rightarrow> world" where
  "on_response l w = w\<lparr>responseListeners := responseListeners w @ [l]\<rparr>"

definition off_response :: "listener \<Rightarrow> world \<Rightarrow> world" where
  "off_response l w = w\<lparr>responseListeners := removeAll l (responseListeners w)\<rparr>"

definition emit_request :: "string \<Rightarrow> request \<Rightarrow> world \<Rightarrow> world" where
  "emit_request topic r w = w\<lparr>trace := trace w @ [Emit topic r]\<rparr>"

text \<open>A promise's \<open>resolve\<close> and \<open>reject\<close>: every call is recorded.\<close>

definition resolve :: "nat \<Rightarrow> jsval \<Rightarrow> world \<Rightarrow> world" where
  "resolve p v w = w\<lparr>settled := settled w @ [(p, Resolve v)]\<rparr>"

definition reject :: "nat \<Rightarrow> jsval \<Rightarrow> world \<Rightarrow> world" where
  "reject p v w = w\<lparr>settled := settled w @ [(p, Reject v)]\<rparr>"

text \<open>
  The state of a promise is decided by the first call of \<open>resolve\<close> or \<open>reject\<close>;
  \<open>None\<close> is a promise still pending.
\<close>

definition promise_state :: "world \<Rightarrow> nat \<Rightarrow> settlement option" where
  "promise_state w p =
     (case filter (\<lambda>c. fst c = p) (settled w) of [] \<Rightarrow> None | c # cs \<Rightarrow> Some (snd c))"

text \<open>All calls of \<open>resolve\<close> or \<open>reject\<close> made for a promise so far.\<close>

definition settle_calls :: "world \<Rightarrow> nat \<Rightarrow> settlement list" where
  "settle_calls w p = map snd (filter (\<lambda>c. fst c = p) (settled w))"

subsection \<open>The listeners\<close>

text \<open>The body of each \<open>onCallback\<close>, applied to a message.\<close>

fun onCallback :: "listener \<Rightarrow> response \<Rightarrow> world \<Rightarrow> world" where
  "onCallback (PasswordCallback p i) message w =
     (if resp_id message = Some i then
        (let params = resp_params message;
             w1 = off_response (PasswordCallback p i) w
         in if typeof params = ''string'' then resolve p params w1 else reject p params w1)
      else w)"
| "onCallback (SignerCallback p i) message w =
     (if resp_id message = Some i then
        (let params = resp_params message;
             w1 = off_response (SignerCallback p i) w
         in if typeof params = ''string'' then resolve p params w1 else reject p params w1)
      else w)"
| "onCallback (LedgerCallback p i) message w =
     (if resp_id message = Some i then
        (let params = resp_params message;
             w1 = off_response (LedgerCallback p i) w
         in if truthy params \<and> typeof params = ''object''
            then resolve p params w1 else reject p params w1)
      else w)"

text \<open>\<open>uiEvents.emit('response', message)\<close>, as a collaborator calls it.\<close>

definition emit_response :: "response \<Rightarrow> world \<Rightarrow> world" where
  "emit_response message w = fold (\<lambda>l. onCallback l message) (responseListeners w) w"

text \<open>The responses that arrive while a caller is suspended, in order.\<close>

definition deliver :: "response list \<Rightarrow> world \<Rightarrow> world" where
  "deliver rs w = fold emit_response rs w"

text \<open>
  \<open>await\<close> of a promise: the caller is suspended while the responses \<open>rs\<close> arrive and
  then sees the promise's state. \<open>None\<close> says that the promise is still pending after
  them, so the caller has not returned. A promise keeps the state its first call gave
  it, so the responses that follow the settling one do not change what the caller sees.
\<close>

definition await :: "nat \<Rightarrow> response list \<Rightarrow> world \<Rightarrow> settlement option \<times> world" where
  "await p rs w = (let w' = deliver rs w in (promise_state w' p, w'))"

subsection \<open>The three channel requests\<close>

text \<open>
  Each takes \<open>now\<close>, the value of \<open>Date.now()\<close>, creates its promise, emits the
  request, subscribes its listener and returns the promise.
\<close>

definition getPasswordByNotification :: "int \<Rightarrow> authState \<Rightarrow> world \<Rightarrow> nat \<times> world" where
  "getPasswordByNotification now auth w =
     (let p = nextPromise w;
          w0 = w\<lparr>nextPromise := Suc p\<rparr>;
          w1 = emit_request ''getPassword''
                 \<lparr>req_method = ''getPassword'', req_id = now, req_params = PasswordParams auth\<rparr> w0;
          w2 = on_response (PasswordCallback p now) w1
      in (p, w2))"

definition pairSignerByNotification :: "int \<Rightarrow> string \<Rightarrow> world \<Rightarrow> nat \<times> world" where
  "pairSignerByNotification now boc w =
     (let p = nextPromise w;
          w0 = w\<lparr>nextPromise := Suc p\<rparr>;
          w1 = emit_request ''signer''
                 \<lparr>req_method = ''signer'', req_id = now, req_params = SignerParams boc\<rparr> w0;
          w2 = on_response (SignerCallback p now) w1
      in (p, w2))"

definition pairLedgerByNotification ::
  "int \<Rightarrow> int list \<Rightarrow> ledgerTransaction \<Rightarrow> world \<Rightarrow> nat \<times> world" where
  "pairLedgerByNotification now path transaction w =
     (let p = nextPromise w;
          w0 = w\<lparr>nextPromise := Suc p\<rparr>;
          w1 = emit_request ''ledger''
                 \<lparr>req_method = ''ledger'', req_id = now,
                  req_params = LedgerParams path transaction\<rparr> w0;
          w2 = on_response (LedgerCallback p now) w1
      in (p, w2))"

subsection \<open>The secret provider\<close>

text \<open>\<open>mnemonic.split(' ')\<close>\<close>

fun split_on :: "char \<Rightarrow> string \<Rightarrow> string list" where
  "split_on c [] = [[]]"
| "split_on c (x # xs) =
     (if x = c then [] # split_on c xs
      else (case split_on c xs of [] \<Rightarrow> [[x]] | y # ys \<Rightarrow> (x # y) # ys))"

text \<open>
  \<open>getMnemonic\<close>. The result \<open>None\<close> is a call still suspended after the responses
  \<open>rs\<close>; \<open>Some (Inl e)\<close> is a rejection with \<open>e\<close>, \<open>Some (Inr m)\<close> the mnemonic.
\<close>

definition getMnemonic ::
  "collaborators \<Rightarrow> string \<Rightarrow> int \<Rightarrow> response list \<Rightarrow> world
     \<Rightarrow> (jsval + string list) option \<times> world" where
  "getMnemonic sdk publicKey now rs w =
     (case getWalletAuthState sdk publicKey of
        Inl e \<Rightarrow> (Some (Inl e), w)
      | Inr auth \<Rightarrow>
          if kind auth = ''none'' then
            (Some (getWalletMnemonic sdk publicKey (JString (kind auth))), w)
          else if kind auth = ''password'' then
            (let (p, w1) = getPasswordByNotification now auth w;
                 (r, w2) = await p rs w1
             in case r of
                  None \<Rightarrow> (None, w2)
                | Some (Reject e) \<Rightarrow> (Some (Inl e), w2)
                | Some (Resolve password) \<Rightarrow>
                    (Some (getWalletMnemonic sdk publicKey password), w2))
          else if kind auth = ''keychain'' then
            (case keychain sdk of
               None \<Rightarrow> (Some (Inl (JError ''Keychain is undefined'')), w)
             | Some getPassword \<Rightarrow>
                 (case getPassword publicKey of
                    Inl e \<Rightarrow> (Some (Inl e), w)
                  | Inr mnemonic \<Rightarrow> (Some (Inr (split_on CHR '' '' mnemonic)), w)))
          else (Some (Inl (JError ''Unexpected auth method'')), w))"

subsection \<open>The signer factory\<close>

text \<open>
  A \<open>Signer\<close> is a callback with a \<open>type\<close> tag. The callbacks are the four closures
  of \<open>getSigner\<close>, each with what it captured: the deep-link one the public key, the
  local one the mnemonic.
\<close>

datatype cellCallback = ViaSigner | ViaDeeplink string | ViaMnemonic "string list"

datatype ledgerCallback = ViaLedger

datatype signer = CellSigner cellCallback | LedgerSigner ledgerCallback

fun signer_type :: "signer \<Rightarrow> string" where
  "signer_type (CellSigner c) = ''cell''"
| "signer_type (LedgerSigner c) = ''ledger''"

definition getSigner ::
  "collaborators \<Rightarrow> string \<Rightarrow> int \<Rightarrow> response list \<Rightarrow> world
     \<Rightarrow> (jsval + signer) option \<times> world" where
  "getSigner sdk publicKey now rs w =
     (case getWalletAuthState sdk publicKey of
        Inl e \<Rightarrow> (Some (Inl e), w)
      | Inr auth \<Rightarrow>
          if kind auth = ''signer'' then (Some (Inr (CellSigner ViaSigner)), w)
          else if kind auth = ''ledger'' then (Some (Inr (LedgerSigner ViaLedger)), w)
          else if kind auth = ''signer-deeplink'' then
            (Some (Inr (CellSigner (ViaDeeplink publicKey))), w)
          else
            (case getMnemonic sdk publicKey now rs w of
               (None, w') \<Rightarrow> (None, w')
             | (Some (Inl e), w') \<Rightarrow> (Some (Inl e), w')
             | (Some (Inr mnemonic), w') \<Rightarrow> (Some (Inr (CellSigner (ViaMnemonic mnemonic))), w')))"

text \<open>
  Modelled from the spec: \<open>storeTransactionAndCreateDeepLink\<close> of the core package
  persists the pending transaction and constructs the deep-link URI.
\<close>

definition storeTransactionAndCreateDeepLink ::
  "collaborators \<Rightarrow> string \<Rightarrow> string \<Rightarrow> world \<Rightarrow> string \<times> world" where
  "storeTransactionAndCreateDeepLink sdk publicKey boc w =
     (createDeepLink sdk publicKey boc, w\<lparr>trace := trace w @ [StoreTransaction publicKey boc]\<rparr>)"

text \<open>
  Calling a signer tagged \<open>cell\<close> with a message. \<open>now\<close> is \<open>Date.now()\<close> where the
  callback reads it, \<open>rs\<close> are the responses that arrive while it is suspended.
\<close>

fun callCell ::
  "collaborators \<Rightarrow> cellCallback \<Rightarrow> cell \<Rightarrow> int \<Rightarrow> response list \<Rightarrow> world
     \<Rightarrow> (jsval + string) option \<times> world" where
  "callCell sdk ViaSigner message now rs w =
     (let (p, w1) = pairSignerByNotification now (toBoc sdk message) w;
          (r, w2) = await p rs w1
      in case r of
           None \<Rightarrow> (None, w2)
         | Some (Reject e) \<Rightarrow> (Some (Inl e), w2)
         | Some (Resolve result) \<Rightarrow> (Some (parseSignerSignature sdk result), w2))"
| "callCell sdk (ViaDeeplink publicKey) message now rs w =
     (let (deeplink, w1) = storeTransactionAndCreateDeepLink sdk publicKey (toBoc sdk message) w;
          w2 = w1\<lparr>trace := trace w1 @ [SetLocation deeplink]\<rparr>;
          w3 = deliver rs (w2\<lparr>trace := trace w2 @ [Delay 2000]\<rparr>)
      in (Some (Inl (JError ''Navigate to deeplink'')), w3))"
| "callCell sdk (ViaMnemonic mnemonic) message now rs w =
     (Some (signCell sdk mnemonic message), w)"

text \<open>Calling a signer tagged \<open>ledger\<close> with a derivation path and a transaction.\<close>

fun callLedger ::
  "ledgerCallback \<Rightarrow> int list \<Rightarrow> ledgerTransaction \<Rightarrow> int \<Rightarrow> response list \<Rightarrow> world
     \<Rightarrow> (jsval + jsval) option \<times> world" where
  "callLedger ViaLedger path transaction now rs w =
     (let (p, w1) = pairLedgerByNotification now path transaction w;
          (r, w2) = await p rs w1
      in case r of
           None \<Rightarrow> (None, w2)
         | Some (Reject e) \<Rightarrow> (Some (Inl e), w2)
         | Some (Resolve result) \<Rightarrow> (Some (Inr result), w2))"

subsection \<open>The names of the failures\<close>

text \<open>
  Modelled from the spec: section 7 names the failures, while the module throws plain
  \<open>Error\<close>s that differ in their message only. Each message of \<open>mnemonic.ts\<close> is
  listed under the name whose description it fits: \<open>UnexpectedAuthMethod\<close> (falls
  through an otherwise exhaustive match) is the \<open>default\<close> branch of \<open>getMnemonic\<close>
  (line 109); \<open>UnsupportedAuthMethod\<close> (capability or method mismatch) are the two
  refusals of \<open>signTonConnectOver\<close> to sign a buffer for a signer wallet (lines 21
  and 24); \<open>KeychainUnavailable\<close> is line 103 and \<open>NavigatedAway\<close> line 73. A value
  that is not one of these errors has no name here.
\<close>

datatype failure =
    ConfigurationError
  | AuthRejected
  | KeychainUnavailable
  | SecretNotFound
  | UnsupportedAuthMethod
  | RemoteSignerError
  | NavigatedAway
  | UnexpectedAuthMethod

fun failure_of :: "jsval \<Rightarrow> failure option" where
  "failure_of (JError m) =
     (if m = ''Unexpected auth method'' then Some UnexpectedAuthMethod
      else if m = ''Signer linked by QR is not support sign buffer.''
              \<or> m = ''Signer linked by deep link is not support sign buffer.''
           then Some UnsupportedAuthMethod
      else if m = ''Keychain is undefined'' then Some KeychainUnavailable
      else if m = ''Navigate to deeplink'' then Some NavigatedAway
      else None)"
| "failure_of v = None"

subsection \<open>Well-formed states\<close>

text \<open>
  Handles are given out in increasing order and a listener is subscribed when its
  promise is created and unsubscribed when it settles it. So in every state the
  module reaches, no listener and no recorded call names a handle still to be given
  out, no two subscribed listeners settle the same promise, and the promise of a
  subscribed listener has no recorded call.
\<close>

definition wf_world :: "world \<Rightarrow> bool" where
  "wf_world w \<longleftrightarrow>
     list_all (\<lambda>l. handle_of l < nextPromise w) (responseListeners w) \<and>
     list_all (\<lambda>c. fst c < nextPromise w) (settled w) \<and>
     distinct (map handle_of (responseListeners w)) \<and>
     list_all (\<lambda>l. list_all (\<lambda>c. fst c \<noteq> handle_of l) (settled w)) (responseListeners w)"

definition initial_world :: world where
  "initial_world = \<lparr>trace = [], responseListeners = [], settled = [], nextPromise = 0\<rparr>"

text \<open>
  Whether a listener's \<open>message.id === id\<close> holds for a message, and the call it then
  makes on its promise: the two string channels resolve with a string and reject with
  anything else, the ledger channel resolves with a truthy value of type object and
  rejects with anything else.
\<close>

definition matches :: "response \<Rightarrow> listener \<Rightarrow> bool" where
  "matches message l \<longleftrightarrow> resp_id message = Some (captured_id l)"

fun outcome :: "listener \<Rightarrow> jsval \<Rightarrow> settlement" where
  "outcome (PasswordCallback p i) v = (if typeof v = ''string'' then Resolve v else Reject v)"
| "outcome (SignerCallback p i) v = (if typeof v = ''string'' then Resolve v else Reject v)"
| "outcome (LedgerCallback p i) v =
     (if truthy v \<and> typeof v = ''object'' then Resolve v else Reject v)"

section \<open>Example data\<close>

text \<open>
  Concrete connections, wallets, accounts, collaborators and states, on which the
  theorems below are evaluated.
\<close>

definition example_conn :: "string \<Rightarrow> accountConnection" where
  "example_conn s = \<lparr>clientSessionId = s, webViewUrl = None, manifestUrl = ''https://dapp.example''\<rparr>"

definition example_wallet :: "string \<Rightarrow> tonWalletStandard" where
  "example_wallet i = \<lparr>wallet_id = i, wallet_publicKey = ''pk''\<rparr>"

definition example_storage :: storage where
  "example_storage =
     (\<lambda>k. [])(''W'' := [example_conn ''a'', example_conn ''b''], ''V'' := [example_conn ''c''],
              ''X'' := [example_conn ''d''])"

definition example_accounts :: "account list" where
  "example_accounts =
     [AccountTonWalletStandard [example_wallet ''W''],
      AccountOther ''watch'' [example_wallet ''X''],
      AccountTonWalletStandard [example_wallet ''V'', example_wallet ''U'']]"

definition example_app :: app where
  "example_app = \<lparr>app_storage = example_storage, manuallyDisconnected = [],
                   unsubscribed = [], invalidations = 0\<rparr>"

definition example_sdk :: collaborators where
  "example_sdk =
     \<lparr>getWalletAuthState =
        (\<lambda>pk. case map_of [(''pk-password'', ''password''), (''pk-ledger'', ''ledger''),
                            (''pk-signer'', ''signer''), (''pk-deeplink'', ''signer-deeplink'')] pk of
                None \<Rightarrow> Inl (JError ''Wallet not found'')
              | Some k \<Rightarrow> Inr (AuthState k)),
      getWalletMnemonic =
        (\<lambda>pk password. if password = JString ''secret'' then Inr [''abandon'', ''ability'']
                        else Inl (JError ''Decryption failed'')),
      keychain = None,
      parseSignerSignature = (\<lambda>v. Inr ''signature''),
      signCell = (\<lambda>mnemonic message. Inr ''signature''),
      toBoc = (\<lambda>message. message),
      createDeepLink = (\<lambda>pk boc. ''tonsign://v1/?pk='' @ pk @ ''&body='' @ boc)\<rparr>"

definition example_world :: world where
  "example_world =
     snd (pairSignerByNotification 1001 ''te6cc''
            (snd (getPasswordByNotification 1000 (AuthState ''password'') initial_world)))"

section \<open>Properties of the connection session manager\<close>

lemma disconnectFromWallet_All:
  "disconnectFromWallet st AllConnections w = (st (wallet_id w), st(wallet_id w := []))"
  by (simp add: disconnectFromWallet_def getTonWalletConnections_def setAccountConnection_def)

lemma disconnectFromWallet_Specific:
  "disconnectFromWallet st (Specific c) w =
     ([c], st(wallet_id w := filter (\<lambda>item. clientSessionId c \<noteq> clientSessionId item)
                               (st (wallet_id w))))"
  by (simp add: disconnectFromWallet_def getTonWalletConnections_def setAccountConnection_def)

subsection \<open>The fan-out over several wallets\<close>

lemma fold_write_key:
  "fold (\<lambda>w s. s(wallet_id w := g (wallet_id w))) ws s0 k =
     (if k \<in> wallet_id ` set ws then g k else s0 k)"
  by (induction ws arbitrary: s0) auto

lemma written_by_disconnectFromWallet:
  "getTonWalletConnections (snd (disconnectFromWallet st c w)) w =
     (case c of
        AllConnections \<Rightarrow> []
      | Specific x \<Rightarrow> filter (\<lambda>item. clientSessionId x \<noteq> clientSessionId item)
                       (st (wallet_id w)))"
  by (cases c)
     (simp_all add: disconnectFromWallet_All disconnectFromWallet_Specific
        getTonWalletConnections_def)

lemma fst_disconnectFromWallets:
  "fst (disconnectFromWallets st c ws) = map (\<lambda>w. fst (disconnectFromWallet st c w)) ws"
  by (simp add: disconnectFromWallets_def)

lemma snd_disconnectFromWallets:
  "snd (disconnectFromWallets st c ws) k =
     (if k \<in> wallet_id ` set ws
      then (case c of
              AllConnections \<Rightarrow> []
            | Specific x \<Rightarrow> filter (\<lambda>item. clientSessionId x \<noteq> clientSessionId item) (st k))
      else st k)"
proof -
  let ?g = "\<lambda>k. case c of
              AllConnections \<Rightarrow> []
            | Specific x \<Rightarrow> filter (\<lambda>item. clientSessionId x \<noteq> clientSessionId item) (st k)"
  have "snd (disconnectFromWallets st c ws) =
        fold (\<lambda>w s. s(wallet_id w := ?g (wallet_id w))) ws st"
    by (simp add: disconnectFromWallets_def written_by_disconnectFromWallet
        setAccountConnection_def)
  then show ?thesis by (simp add: fold_write_key [where g = ?g])
qed

section \<open>Properties of the event bus and its listeners\<close>

lemma onCallback_eq:
  "onCallback l m w =
     (if matches m l
      then w\<lparr>responseListeners := removeAll l (responseListeners w),
             settled := settled w @ [(handle_of l, outcome l (resp_params m))]\<rparr>
      else w)"
  by (cases l) (simp_all add: matches_def off_response_def resolve_def reject_def Let_def)

lemma fold_onCallback:
  "fold (\<lambda>l. onCallback l m) xs w =
     w\<lparr>responseListeners :=
          filter (\<lambda>l. \<not> (l \<in> set xs \<and> matches m l)) (responseListeners w),
        settled :=
          settled w @ map (\<lambda>l. (handle_of l, outcome l (resp_params m))) (filter (matches m) xs)\<rparr>"
proof (induction xs arbitrary: w)
  case Nil
  then show ?case by simp
next
  case (Cons x xs)
  have step: "fold (\<lambda>l. onCallback l m) (x # xs) w =
              fold (\<lambda>l. onCallback l m) xs (onCallback x m w)"
    by simp
  show ?case
  proof (cases "matches m x")
    case True
    have f: "filter (\<lambda>l. \<not> (l \<in> set xs \<and> matches m l)) (removeAll x ys) =
          filter (\<lambda>l. \<not> ((l = x \<or> l \<in> set xs) \<and> matches m l)) ys" for ys
      using True by (induction ys) auto
    have c: "onCallback x m w =
               w\<lparr>responseListeners := removeAll x (responseListeners w),
                  settled := settled w @ [(handle_of x, outcome x (resp_params m))]\<rparr>"
      using True by (simp add: onCallback_eq)
    show ?thesis unfolding step c Cons.IH using True f [of "responseListeners w"] by simp
  next
    case False
    have f: "filter (\<lambda>l. \<not> (l \<in> set xs \<and> matches m l)) (responseListeners w) =
          filter (\<lambda>l. \<not> ((l = x \<or> l \<in> set xs) \<and> matches m l)) (responseListeners w)"
      using False by (intro filter_cong) auto
    have c: "onCallback x m w = w" using False by (simp add: onCallback_eq)
    show ?thesis unfolding step c Cons.IH using False f by simp
  qed
qed

lemma emit_response_eq:
  "emit_response m w =
     w\<lparr>responseListeners := filter (\<lambda>l. \<not> matches m l) (responseListeners w),
        settled :=
          settled w @ map (\<lambda>l. (handle_of l, outcome l (resp_params m)))
                        (filter (matches m) (responseListeners w))\<rparr>"
proof -
  have "filter (\<lambda>l. \<not> (l \<in> set (responseListeners w) \<and> matches m l)) (responseListeners w) =
        filter (\<lambda>l. \<not> matches m l) (responseListeners w)"
    by (intro filter_cong) auto
  then show ?thesis by (simp add: emit_response_def fold_onCallback)
qed

lemma responseListeners_emit_response:
  "responseListeners (emit_response m w) = filter (\<lambda>l. \<not> matches m l) (responseListeners w)"
  by (simp add: emit_response_eq)

lemma settled_emit_response:
  "settled (emit_response m w) =
     settled w @ map (\<lambda>l. (handle_of l, outcome l (resp_params m)))
                   (filter (matches m) (responseListeners w))"
  by (simp add: emit_response_eq)

lemma trace_emit_response: "trace (emit_response m w) = trace w"
  by (simp add: emit_response_eq)

lemma nextPromise_emit_response: "nextPromise (emit_response m w) = nextPromise w"
  by (simp add: emit_response_eq)

lemma trace_deliver: "trace (deliver rs w) = trace w"
  unfolding deliver_def by (induction rs arbitrary: w) (simp_all add: trace_emit_response)

lemma nextPromise_deliver: "nextPromise (deliver rs w) = nextPromise w"
  unfolding deliver_def by (induction rs arbitrary: w) (simp_all add: nextPromise_emit_response)

lemma deliver_Cons: "deliver (m # rs) w = deliver rs (emit_response m w)"
  by (simp add: deliver_def)

lemma deliver_Nil: "deliver [] w = w"
  by (simp add: deliver_def)

lemma settle_calls_emit_response:
  "settle_calls (emit_response m w) p =
     settle_calls w p @
     map (\<lambda>l. outcome l (resp_params m))
       (filter (\<lambda>l. matches m l \<and> handle_of l = p) (responseListeners w))"
  by (simp add: settle_calls_def settled_emit_response filter_map o_def conj_commute)

lemma distinct_handle_filter:
  "distinct (map handle_of ls) \<Longrightarrow> l \<in> set ls \<Longrightarrow>
   filter (\<lambda>x. handle_of x = handle_of l) ls = [l]"
proof (induction ls)
  case Nil
  then show ?case by simp
next
  case (Cons a ls)
  show ?case
  proof (cases "a = l")
    case True
    have "handle_of l \<notin> handle_of ` set ls" using Cons.prems True by simp
    then have "filter (\<lambda>x. handle_of x = handle_of l) ls = []"
      unfolding filter_empty_conv by (metis imageI)
    then show ?thesis using True by simp
  next
    case False
    then have "l \<in> set ls" using Cons.prems by simp
    moreover have "handle_of a \<noteq> handle_of l" using Cons.prems \<open>l \<in> set ls\<close> by auto
    ultimately show ?thesis using Cons by simp
  qed
qed

lemma wf_world_emit_response: "wf_world w \<Longrightarrow> wf_world (emit_response m w)"
proof -
  assume wf: "wf_world w"
  let ?L = "responseListeners w"
  have d: "distinct (map handle_of ?L)" using wf by (simp add: wf_world_def)
  have a: "list_all (\<lambda>l. handle_of l < nextPromise w) (filter (\<lambda>l. \<not> matches m l) ?L)"
    using wf by (auto simp: wf_world_def list_all_iff)
  have b: "list_all (\<lambda>c. fst c < nextPromise w)
             (settled w @ map (\<lambda>l. (handle_of l, outcome l (resp_params m))) (filter (matches m) ?L))"
    using wf by (auto simp: wf_world_def list_all_iff)
  have c: "distinct (map handle_of (filter (\<lambda>l. \<not> matches m l) ?L))"
    using d by (rule distinct_map_filter)
  have e: "list_all (\<lambda>l. list_all (\<lambda>c. fst c \<noteq> handle_of l)
             (settled w @ map (\<lambda>l. (handle_of l, outcome l (resp_params m))) (filter (matches m) ?L)))
             (filter (\<lambda>l. \<not> matches m l) ?L)"
  proof -
    have "handle_of x \<noteq> handle_of l"
      if "l \<in> set ?L" "\<not> matches m l" "x \<in> set ?L" "matches m x" for l x
    proof
      assume h: "handle_of x = handle_of l"
      have "x \<noteq> l" using that by auto
      then show False using d h that(1,3) by (meson distinct_map inj_onD)
    qed
    then show ?thesis using wf by (auto simp: wf_world_def list_all_iff)
  qed
  show ?thesis
    using a b c e
    by (simp add: wf_world_def responseListeners_emit_response settled_emit_response
        nextPromise_emit_response)
qed

lemma wf_world_deliver: "wf_world w \<Longrightarrow> wf_world (deliver rs w)"
  by (induction rs arbitrary: w) (simp_all add: deliver_Nil deliver_Cons wf_world_emit_response)

lemma wf_world_initial: "wf_world initial_world"
  by (simp add: wf_world_def initial_world_def)


lemma settle_calls_deliver_unsubscribed:
  "list_all (\<lambda>l. handle_of l \<noteq> p) (responseListeners w) \<Longrightarrow>
   settle_calls (deliver rs w) p = settle_calls w p"
proof (induction rs arbitrary: w)
  case Nil
  then show ?case by (simp add: deliver_Nil)
next
  case (Cons m rs)
  have none: "filter (\<lambda>l. matches m l \<and> handle_of l = p) (responseListeners w) = []"
    using Cons.prems by (auto simp: filter_empty_conv list_all_iff)
  have keep: "list_all (\<lambda>l. handle_of l \<noteq> p) (responseListeners (emit_response m w))"
    using Cons.prems by (auto simp: responseListeners_emit_response list_all_iff)
  show ?case
    by (simp add: deliver_Cons Cons.IH [OF keep] settle_calls_emit_response none)
qed

lemma wf_world_pending:
  "wf_world w \<Longrightarrow> l \<in> set (responseListeners w) \<Longrightarrow> settle_calls w (handle_of l) = []"
  by (auto simp: wf_world_def settle_calls_def list_all_iff filter_empty_conv)

lemma matching_listener_settles_once:
  assumes wf: "wf_world w" and l: "l \<in> set (responseListeners w)" and m: "matches m l"
  shows "settle_calls (emit_response m w) (handle_of l) = [outcome l (resp_params m)]"
    and "list_all (\<lambda>x. handle_of x \<noteq> handle_of l) (responseListeners (emit_response m w))"
proof -
  have d: "distinct (map handle_of (responseListeners w))"
    using wf by (simp add: wf_world_def)
  have one: "filter (\<lambda>x. handle_of x = handle_of l) (responseListeners w) = [l]"
    using d l by (rule distinct_handle_filter)
  have "filter (\<lambda>x. matches m x \<and> handle_of x = handle_of l) (responseListeners w) =
        filter (matches m) (filter (\<lambda>x. handle_of x = handle_of l) (responseListeners w))"
    by (simp add: conj_commute)
  then have f: "filter (\<lambda>x. matches m x \<and> handle_of x = handle_of l) (responseListeners w) = [l]"
    using one m by simp
  show "settle_calls (emit_response m w) (handle_of l) = [outcome l (resp_params m)]"
    by (simp add: settle_calls_emit_response f wf_world_pending [OF wf l])
  have "x = l" if "x \<in> set (responseListeners w)" "handle_of x = handle_of l" for x
    using d l that by (meson distinct_map inj_onD)
  then show "list_all (\<lambda>x. handle_of x \<noteq> handle_of l) (responseListeners (emit_response m w))"
    using m by (auto simp: responseListeners_emit_response list_all_iff)
qed

lemma other_listener_untouched:
  assumes wf: "wf_world w" and l: "l \<in> set (responseListeners w)" and m: "\<not> matches m l"
  shows "settle_calls (emit_response m w) (handle_of l) = []"
    and "l \<in> set (responseListeners (emit_response m w))"
proof -
  have d: "distinct (map handle_of (responseListeners w))"
    using wf by (simp add: wf_world_def)
  have one: "filter (\<lambda>x. handle_of x = handle_of l) (responseListeners w) = [l]"
    using d l by (rule distinct_handle_filter)
  have "filter (\<lambda>x. matches m x \<and> handle_of x = handle_of l) (responseListeners w) =
        filter (matches m) (filter (\<lambda>x. handle_of x = handle_of l) (responseListeners w))"
    by (simp add: conj_commute)
  then have f: "filter (\<lambda>x. matches m x \<and> handle_of x = handle_of l) (responseListeners w) = []"
    using one m by simp
  show "settle_calls (emit_response m w) (handle_of l) = []"
    by (simp add: settle_calls_emit_response f wf_world_pending [OF wf l])
  show "l \<in> set (responseListeners (emit_response m w))"
    using l m by (simp add: responseListeners_emit_response)
qed

lemma settle_calls_deliver:
  "wf_world w \<Longrightarrow> l \<in> set (responseListeners w) \<Longrightarrow>
   settle_calls (deliver rs w) (handle_of l) =
     (case find (\<lambda>m. matches m l) rs of None \<Rightarrow> [] | Some m \<Rightarrow> [outcome l (resp_params m)])"
proof (induction rs arbitrary: w)
  case Nil
  then show ?case by (simp add: deliver_Nil wf_world_pending)
next
  case (Cons m rs)
  show ?case
  proof (cases "matches m l")
    case True
    show ?thesis
      using True matching_listener_settles_once [OF Cons.prems True]
      by (simp add: deliver_Cons settle_calls_deliver_unsubscribed)
  next
    case False
    have "settle_calls (deliver rs (emit_response m w)) (handle_of l) =
          (case find (\<lambda>m. matches m l) rs of None \<Rightarrow> [] | Some m \<Rightarrow> [outcome l (resp_params m)])"
      using Cons.prems False
      by (intro Cons.IH wf_world_emit_response other_listener_untouched)
    then show ?thesis using False by (simp add: deliver_Cons)
  qed
qed

lemma promise_state_settle_calls:
  "promise_state w p = (case settle_calls w p of [] \<Rightarrow> None | s # ss \<Rightarrow> Some s)"
  by (simp add: promise_state_def settle_calls_def split: list.splits)

lemma promise_state_deliver:
  "wf_world w \<Longrightarrow> l \<in> set (responseListeners w) \<Longrightarrow>
   promise_state (deliver rs w) (handle_of l) =
     (case find (\<lambda>m. matches m l) rs of None \<Rightarrow> None | Some m \<Rightarrow> Some (outcome l (resp_params m)))"
  by (simp add: promise_state_settle_calls settle_calls_deliver split: option.splits)

lemma wf_world_subscribe:
  assumes "wf_world w" and "handle_of l = nextPromise w"
  shows "wf_world (w\<lparr>nextPromise := Suc (nextPromise w), trace := t,
                      responseListeners := responseListeners w @ [l]\<rparr>)"
  using assms by (auto simp: wf_world_def list_all_iff less_Suc_eq)

lemma getPasswordByNotification_eq:
  "getPasswordByNotification now auth w =
     (nextPromise w,
      w\<lparr>nextPromise := Suc (nextPromise w),
        trace := trace w @ [Emit ''getPassword''
          \<lparr>req_method = ''getPassword'', req_id = now, req_params = PasswordParams auth\<rparr>],
        responseListeners := responseListeners w @ [PasswordCallback (nextPromise w) now]\<rparr>)"
  by (simp add: getPasswordByNotification_def Let_def emit_request_def on_response_def)

lemma pairSignerByNotification_eq:
  "pairSignerByNotification now boc w =
     (nextPromise w,
      w\<lparr>nextPromise := Suc (nextPromise w),
        trace := trace w @ [Emit ''signer''
          \<lparr>req_method = ''signer'', req_id = now, req_params = SignerParams boc\<rparr>],
        responseListeners := responseListeners w @ [SignerCallback (nextPromise w) now]\<rparr>)"
  by (simp add: pairSignerByNotification_def Let_def emit_request_def on_response_def)

lemma pairLedgerByNotification_eq:
  "pairLedgerByNotification now path transaction w =
     (nextPromise w,
      w\<lparr>nextPromise := Suc (nextPromise w),
        trace := trace w @ [Emit ''ledger''
          \<lparr>req_method = ''ledger'', req_id = now, req_params = LedgerParams path transaction\<rparr>],
        responseListeners := responseListeners w @ [LedgerCallback (nextPromise w) now]\<rparr>)"
  by (simp add: pairLedgerByNotification_def Let_def emit_request_def on_response_def)

lemma wf_world_getPasswordByNotification:
  "wf_world w \<Longrightarrow> wf_world (snd (getPasswordByNotification now auth w))"
  by (simp add: getPasswordByNotification_eq wf_world_subscribe)

lemma wf_world_pairSignerByNotification:
  "wf_world w \<Longrightarrow> wf_world (snd (pairSignerByNotification now boc w))"
  by (simp add: pairSignerByNotification_eq wf_world_subscribe)

lemma wf_world_pairLedgerByNotification:
  "wf_world w \<Longrightarrow> wf_world (snd (pairLedgerByNotification now path transaction w))"
  by (simp add: pairLedgerByNotification_eq wf_world_subscribe)

subsection \<open>Awaiting a channel request\<close>

lemma matches_PasswordCallback: "matches m (PasswordCallback p i) \<longleftrightarrow> resp_id m = Some i"
  by (simp add: matches_def)

lemma matches_SignerCallback: "matches m (SignerCallback p i) \<longleftrightarrow> resp_id m = Some i"
  by (simp add: matches_def)

lemma matches_LedgerCallback: "matches m (LedgerCallback p i) \<longleftrightarrow> resp_id m = Some i"
  by (simp add: matches_def)

lemma await_getPasswordByNotification:
  assumes wf: "wf_world w"
  shows "fst (await (fst (getPasswordByNotification now auth w)) rs
                (snd (getPasswordByNotification now auth w))) =
         (case find (\<lambda>m. resp_id m = Some now) rs of
            None \<Rightarrow> None
          | Some m \<Rightarrow> Some (outcome (PasswordCallback (nextPromise w) now) (resp_params m)))"
proof -
  let ?l = "PasswordCallback (nextPromise w) now"
  let ?w1 = "snd (getPasswordByNotification now auth w)"
  have wf1: "wf_world ?w1" using wf by (rule wf_world_getPasswordByNotification)
  have l: "?l \<in> set (responseListeners ?w1)" by (simp add: getPasswordByNotification_eq)
  have p: "fst (getPasswordByNotification now auth w) = handle_of ?l"
    by (simp add: getPasswordByNotification_eq)
  show ?thesis
    unfolding p await_def Let_def fst_conv promise_state_deliver [OF wf1 l]
    by (simp add: matches_PasswordCallback)
qed

lemma await_pairSignerByNotification:
  assumes wf: "wf_world w"
  shows "fst (await (fst (pairSignerByNotification now boc w)) rs
                (snd (pairSignerByNotification now boc w))) =
         (case find (\<lambda>m. resp_id m = Some now) rs of
            None \<Rightarrow> None
          | Some m \<Rightarrow> Some (outcome (SignerCallback (nextPromise w) now) (resp_params m)))"
proof -
  let ?l = "SignerCallback (nextPromise w) now"
  let ?w1 = "snd (pairSignerByNotification now boc w)"
  have wf1: "wf_world ?w1" using wf by (rule wf_world_pairSignerByNotification)
  have l: "?l \<in> set (responseListeners ?w1)" by (simp add: pairSignerByNotification_eq)
  have p: "fst (pairSignerByNotification now boc w) = handle_of ?l"
    by (simp add: pairSignerByNotification_eq)
  show ?thesis
    unfolding p await_def Let_def fst_conv promise_state_deliver [OF wf1 l]
    by (simp add: matches_SignerCallback)
qed

lemma await_pairLedgerByNotification:
  assumes wf: "wf_world w"
  shows "fst (await (fst (pairLedgerByNotification now path tx w)) rs
                (snd (pairLedgerByNotification now path tx w))) =
         (case find (\<lambda>m. resp_id m = Some now) rs of
            None \<Rightarrow> None
          | Some m \<Rightarrow> Some (outcome (LedgerCallback (nextPromise w) now) (resp_params m)))"
proof -
  let ?l = "LedgerCallback (nextPromise w) now"
  let ?w1 = "snd (pairLedgerByNotification now path tx w)"
  have wf1: "wf_world ?w1" using wf by (rule wf_world_pairLedgerByNotification)
  have l: "?l \<in> set (responseListeners ?w1)" by (simp add: pairLedgerByNotification_eq)
  have p: "fst (pairLedgerByNotification now path tx w) = handle_of ?l"
    by (simp add: pairLedgerByNotification_eq)
  show ?thesis
    unfolding p await_def Let_def fst_conv promise_state_deliver [OF wf1 l]
    by (simp add: matches_LedgerCallback)
qed

lemma trace_await: "trace (snd (await p rs w)) = trace w"
  by (simp add: await_def Let_def trace_deliver)

subsection \<open>Every operation keeps the state well-formed\<close>

lemma wf_world_trace_update: "wf_world (w\<lparr>trace := t\<rparr>) = wf_world w"
  by (simp add: wf_world_def)

lemma wf_world_await: "wf_world w \<Longrightarrow> wf_world (snd (await p rs w))"
  by (simp add: await_def Let_def wf_world_deliver)

lemma wf_world_getMnemonic:
  assumes "wf_world w"
  shows "wf_world (snd (getMnemonic sdk publicKey now rs w))"
proof -
  have "wf_world (snd (await (fst (getPasswordByNotification now auth w)) rs
                         (snd (getPasswordByNotification now auth w))))" for auth
    using assms by (intro wf_world_await wf_world_getPasswordByNotification)
  then show ?thesis
    using assms
    by (auto simp: getMnemonic_def split_beta
        split: sum.splits option.splits settlement.splits)
qed

lemma wf_world_getSigner:
  assumes "wf_world w"
  shows "wf_world (snd (getSigner sdk publicKey now rs w))"
  using assms wf_world_getMnemonic [OF assms, of sdk publicKey now rs]
  by (auto simp: getSigner_def split: sum.splits option.splits prod.splits)

lemma wf_world_callCell:
  assumes "wf_world w"
  shows "wf_world (snd (callCell sdk c message now rs w))"
proof (cases c)
  case ViaSigner
  have "wf_world (snd (await (fst (pairSignerByNotification now boc w)) rs
                         (snd (pairSignerByNotification now boc w))))" for boc
    using assms by (intro wf_world_await wf_world_pairSignerByNotification)
  then show ?thesis
    using ViaSigner by (auto simp: split_beta split: option.splits settlement.splits)
next
  case (ViaDeeplink pk)
  then show ?thesis
    using assms
    by (simp add: storeTransactionAndCreateDeepLink_def wf_world_deliver wf_world_trace_update)
next
  case (ViaMnemonic m)
  then show ?thesis using assms by simp
qed

lemma wf_world_callLedger:
  assumes "wf_world w"
  shows "wf_world (snd (callLedger c path transaction now rs w))"
proof -
  have "wf_world (snd (await (fst (pairLedgerByNotification now path transaction w)) rs
                         (snd (pairLedgerByNotification now path transaction w))))"
    using assms by (intro wf_world_await wf_world_pairLedgerByNotification)
  then show ?thesis
    by (cases c) (auto simp: split_beta split: option.splits settlement.splits)
qed

section \<open>The claims about the notification-paired channel and the signers\<close>

text \<open>
  C1: in a well-formed state, let two listeners be subscribed on the \<open>response\<close>
  topic (two outstanding requests) with different captured ids, and let a response
  carry the first one's id. Then exactly one call of \<open>resolve\<close> or \<open>reject\<close> is made
  for the first listener's promise, the one its channel prescribes for the response's
  \<open>params\<close>, and none for the second's. The first listener is unsubscribed and the
  second stays subscribed. Whatever responses follow, no further call is ever made for
  the first promise.
\<close>

theorem response_settles_only_its_waiter:
  assumes wf: "wf_world w"
    and l1: "l1 \<in> set (responseListeners w)"
    and l2: "l2 \<in> set (responseListeners w)"
    and ids: "captured_id l1 \<noteq> captured_id l2"
    and m: "resp_id m = Some (captured_id l1)"
  shows "settle_calls (emit_response m w) (handle_of l1) = [outcome l1 (resp_params m)] \<and>
         settle_calls (emit_response m w) (handle_of l2) = [] \<and>
         l1 \<notin> set (responseListeners (emit_response m w)) \<and>
         l2 \<in> set (responseListeners (emit_response m w)) \<and>
         (\<forall>rs. settle_calls (deliver rs (emit_response m w)) (handle_of l1) =
                 [outcome l1 (resp_params m)])"
proof -
  have m1: "matches m l1" using m by (simp add: matches_def)
  have m2: "\<not> matches m l2" using m ids by (simp add: matches_def)
  note a = matching_listener_settles_once [OF wf l1 m1]
  note b = other_listener_untouched [OF wf l2 m2]
  have gone: "l1 \<notin> set (responseListeners (emit_response m w))"
    using m1 by (simp add: responseListeners_emit_response)
  have later: "settle_calls (deliver rs (emit_response m w)) (handle_of l1) =
               [outcome l1 (resp_params m)]" for rs
    using a by (simp add: settle_calls_deliver_unsubscribed)
  show ?thesis using a(1) b gone later by simp
qed


text \<open>
  Two requests made one after the other by \<open>getPasswordByNotification\<close> and
  \<open>pairSignerByNotification\<close>; the response answers the first, and a late second
  response with the same id changes nothing.
\<close>

theorem response_settles_only_its_waiter_witness:
  "wf_world example_world \<and>
   PasswordCallback 0 1000 \<in> set (responseListeners example_world) \<and>
   SignerCallback 1 1001 \<in> set (responseListeners example_world) \<and>
   settle_calls
     (emit_response \<lparr>resp_id = Some 1000, resp_params = JString ''secret''\<rparr> example_world) 0 =
     [Resolve (JString ''secret'')] \<and>
   settle_calls
     (emit_response \<lparr>resp_id = Some 1000, resp_params = JString ''secret''\<rparr> example_world) 1 = [] \<and>
   settle_calls
     (deliver [\<lparr>resp_id = Some 1000, resp_params = JError ''late''\<rparr>]
        (emit_response \<lparr>resp_id = Some 1000, resp_params = JString ''secret''\<rparr> example_world)) 0 =
     [Resolve (JString ''secret'')]"
proof -
  have wf: "wf_world example_world"
    unfolding example_world_def
    by (intro wf_world_pairSignerByNotification wf_world_getPasswordByNotification
        wf_world_initial)
  have l1: "PasswordCallback 0 1000 \<in> set (responseListeners example_world)"
    by (simp add: example_world_def pairSignerByNotification_eq getPasswordByNotification_eq
        initial_world_def)
  have l2: "SignerCallback 1 1001 \<in> set (responseListeners example_world)"
    by (simp add: example_world_def pairSignerByNotification_eq getPasswordByNotification_eq
        initial_world_def)
  show ?thesis
    using wf l1 l2
      response_settles_only_its_waiter [OF wf l1 l2,
        of "\<lparr>resp_id = Some 1000, resp_params = JString ''secret''\<rparr>"]
    by simp
qed


text \<open>
  C4: for a wallet whose auth kind is \<open>signer-deeplink\<close>, \<open>getSigner\<close> returns at
  once a signer tagged \<open>cell\<close>. Calling it stores the pending transaction, assigns
  the deep link to \<open>window.location\<close>, waits 2000 milliseconds and then rejects with
  the error \<open>Navigate to deeplink\<close>, in this order and for every list of responses
  that arrive meanwhile; it never returns a signature.
\<close>

theorem deeplink_signer_always_rejects:
  assumes auth: "getWalletAuthState sdk publicKey = Inr auth"
    and kind: "kind auth = ''signer-deeplink''"
  shows "getSigner sdk publicKey now0 rs0 w0 =
           (Some (Inr (CellSigner (ViaDeeplink publicKey))), w0) \<and>
         signer_type (CellSigner (ViaDeeplink publicKey)) = ''cell'' \<and>
         fst (callCell sdk (ViaDeeplink publicKey) message now rs w) =
           Some (Inl (JError ''Navigate to deeplink'')) \<and>
         trace (snd (callCell sdk (ViaDeeplink publicKey) message now rs w)) =
           trace w @ [StoreTransaction publicKey (toBoc sdk message),
                      SetLocation (createDeepLink sdk publicKey (toBoc sdk message)),
                      Delay 2000]"
  by (simp add: getSigner_def auth kind storeTransactionAndCreateDeepLink_def trace_deliver)


theorem deeplink_signer_always_rejects_witness:
  "getWalletAuthState example_sdk ''pk-deeplink'' = Inr (AuthState ''signer-deeplink'') \<and>
   fst (getSigner example_sdk ''pk-deeplink'' 1000 [] initial_world) =
     Some (Inr (CellSigner (ViaDeeplink ''pk-deeplink''))) \<and>
   fst (callCell example_sdk (ViaDeeplink ''pk-deeplink'') ''te6cc'' 1000
          [\<lparr>resp_id = Some 1000, resp_params = JString ''signature''\<rparr>] initial_world) =
     Some (Inl (JError ''Navigate to deeplink'')) \<and>
   trace (snd (callCell example_sdk (ViaDeeplink ''pk-deeplink'') ''te6cc'' 1000
          [\<lparr>resp_id = Some 1000, resp_params = JString ''signature''\<rparr>] initial_world)) =
     [StoreTransaction ''pk-deeplink'' ''te6cc'',
      SetLocation ''tonsign://v1/?pk=pk-deeplink&body=te6cc'',
      Delay 2000]"
proof -
  have a: "getWalletAuthState example_sdk ''pk-deeplink'' = Inr (AuthState ''signer-deeplink'')"
    by (simp add: example_sdk_def)
  have t: "trace initial_world = []" by (simp add: initial_world_def)
  have s: "toBoc example_sdk ''te6cc'' = ''te6cc''"
    "createDeepLink example_sdk ''pk-deeplink'' ''te6cc'' = ''tonsign://v1/?pk=pk-deeplink&body=te6cc''"
    by (simp_all add: example_sdk_def)
  show ?thesis
    using a deeplink_signer_always_rejects [OF a, of 1000 "[]" initial_world "''te6cc''" 1000
        "[\<lparr>resp_id = Some 1000, resp_params = JString ''signature''\<rparr>]" initial_world]
    by (simp add: t s)
qed


text \<open>
  C5: for a wallet whose auth kind is \<open>password\<close>, when the first response that
  carries the request's id has \<open>params\<close> that is not a string (an \<open>Error\<close>, say),
  \<open>getMnemonic\<close> rejects with that very value and returns no mnemonic.
\<close>

theorem password_rejection_propagates:
  assumes auth: "getWalletAuthState sdk publicKey = Inr auth"
    and kind: "kind auth = ''password''"
    and wf: "wf_world w"
    and first: "find (\<lambda>m. resp_id m = Some now) rs = Some m"
    and err: "typeof (resp_params m) \<noteq> ''string''"
  shows "fst (getMnemonic sdk publicKey now rs w) = Some (Inl (resp_params m))"
proof -
  have a: "fst (await (fst (getPasswordByNotification now auth w)) rs
                  (snd (getPasswordByNotification now auth w))) =
           Some (Reject (resp_params m))"
    using first err by (simp add: await_getPasswordByNotification [OF wf])
  show ?thesis
    using a by (simp add: getMnemonic_def auth kind split_beta)
qed


theorem password_rejection_propagates_witness:
  "getWalletAuthState example_sdk ''pk-password'' = Inr (AuthState ''password'') \<and>
   wf_world initial_world \<and>
   find (\<lambda>m. resp_id m = Some 1000)
     [\<lparr>resp_id = Some 999, resp_params = JString ''other''\<rparr>,
      \<lparr>resp_id = Some 1000, resp_params = JError ''Cancelled''\<rparr>] =
     Some \<lparr>resp_id = Some 1000, resp_params = JError ''Cancelled''\<rparr> \<and>
   fst (getMnemonic example_sdk ''pk-password'' 1000
          [\<lparr>resp_id = Some 999, resp_params = JString ''other''\<rparr>,
           \<lparr>resp_id = Some 1000, resp_params = JError ''Cancelled''\<rparr>] initial_world) =
     Some (Inl (JError ''Cancelled''))"
proof -
  have a: "getWalletAuthState example_sdk ''pk-password'' = Inr (AuthState ''password'')"
    by (simp add: example_sdk_def)
  have f: "find (\<lambda>m. resp_id m = Some 1000)
     [\<lparr>resp_id = Some 999, resp_params = JString ''other''\<rparr>,
      \<lparr>resp_id = Some 1000, resp_params = JError ''Cancelled''\<rparr>] =
     Some \<lparr>resp_id = Some 1000, resp_params = JError ''Cancelled''\<rparr>"
    by simp
  show ?thesis
    using a f wf_world_initial
      password_rejection_propagates [OF a _ wf_world_initial f]
    by simp
qed


text \<open>
  C6, as amended: for a wallet whose auth kind is \<open>signer\<close> or \<open>signer-deeplink\<close>,
  \<open>getMnemonic\<close> returns no mnemonic and rejects, whatever responses arrive and
  without emitting anything, with the error \<open>Unexpected auth method\<close> of its
  \<open>default\<close> branch, which the spec's list of failures names \<open>UnexpectedAuthMethod\<close>.
\<close>

theorem signer_kinds_have_no_mnemonic:
  assumes auth: "getWalletAuthState sdk publicKey = Inr auth"
    and kind: "kind auth = ''signer'' \<or> kind auth = ''signer-deeplink''"
  shows "getMnemonic sdk publicKey now rs w =
           (Some (Inl (JError ''Unexpected auth method'')), w) \<and>
         failure_of (JError ''Unexpected auth method'') = Some UnexpectedAuthMethod"
  using kind by (auto simp: getMnemonic_def auth)

theorem signer_kinds_have_no_mnemonic_witness:
  "getWalletAuthState example_sdk ''pk-signer'' = Inr (AuthState ''signer'') \<and>
   getWalletAuthState example_sdk ''pk-deeplink'' = Inr (AuthState ''signer-deeplink'') \<and>
   getMnemonic example_sdk ''pk-signer'' 1000 [] initial_world =
     (Some (Inl (JError ''Unexpected auth method'')), initial_world) \<and>
   getMnemonic example_sdk ''pk-deeplink'' 1000
       [\<lparr>resp_id = Some 1000, resp_params = JString ''secret''\<rparr>] initial_world =
     (Some (Inl (JError ''Unexpected auth method'')), initial_world)"
proof -
  have a: "getWalletAuthState example_sdk ''pk-signer'' = Inr (AuthState ''signer'')"
    by (simp add: example_sdk_def)
  have b: "getWalletAuthState example_sdk ''pk-deeplink'' = Inr (AuthState ''signer-deeplink'')"
    by (simp add: example_sdk_def)
  show ?thesis
    using a b
      signer_kinds_have_no_mnemonic [OF a, of 1000 "[]" initial_world]
      signer_kinds_have_no_mnemonic [OF b, of 1000
        "[\<lparr>resp_id = Some 1000, resp_params = JString ''secret''\<rparr>]" initial_world]
    by simp
qed

text \<open>
  The claim as stated names the failure \<open>UnsupportedAuthMethod\<close>. For a \<open>signer\<close>
  wallet the error thrown is not listed under that name: it is the fall-through error,
  the same one a \<open>ledger\<close> wallet gets.
\<close>

theorem signer_mnemonic_error_counterexample:
  "getWalletAuthState example_sdk ''pk-signer'' = Inr (AuthState ''signer'') \<and>
   fst (getMnemonic example_sdk ''pk-signer'' 1000 [] initial_world) =
     Some (Inl (JError ''Unexpected auth method'')) \<and>
   failure_of (JError ''Unexpected auth method'') \<noteq> Some UnsupportedAuthMethod \<and>
   fst (getMnemonic example_sdk ''pk-signer'' 1000 [] initial_world) =
     fst (getMnemonic example_sdk ''pk-ledger'' 1000 [] initial_world)"
  by (simp add: getMnemonic_def example_sdk_def)

text \<open>
  C7: for a wallet whose auth kind is \<open>ledger\<close>, \<open>getSigner\<close> returns at once a
  signer tagged \<open>ledger\<close>. Calling it with a path and a transaction emits exactly one
  event, on the \<open>ledger\<close> topic, whose \<open>params\<close> are the path and the transaction.
  The call stays suspended until a response carries the request's id; the first such
  response resolves it with its \<open>params\<close> when they are truthy and of type object,
  and rejects it with them otherwise (a string, \<open>null\<close>, \<open>undefined\<close>).
\<close>

theorem ledger_signer_pairs_by_notification:
  assumes auth: "getWalletAuthState sdk publicKey = Inr auth"
    and kind: "kind auth = ''ledger''"
    and wf: "wf_world w"
  shows "getSigner sdk publicKey now0 rs0 w0 = (Some (Inr (LedgerSigner ViaLedger)), w0) \<and>
         signer_type (LedgerSigner ViaLedger) = ''ledger'' \<and>
         trace (snd (callLedger ViaLedger path transaction now rs w)) =
           trace w @ [Emit ''ledger''
             \<lparr>req_method = ''ledger'', req_id = now,
              req_params = LedgerParams path transaction\<rparr>] \<and>
         fst (callLedger ViaLedger path transaction now rs w) =
           (case find (\<lambda>m. resp_id m = Some now) rs of
              None \<Rightarrow> None
            | Some m \<Rightarrow>
                Some (if truthy (resp_params m) \<and> typeof (resp_params m) = ''object''
                      then Inr (resp_params m) else Inl (resp_params m)))"
proof -
  have g: "getSigner sdk publicKey now0 rs0 w0 = (Some (Inr (LedgerSigner ViaLedger)), w0)"
    by (simp add: getSigner_def auth kind)
  have t: "trace (snd (callLedger ViaLedger path transaction now rs w)) =
           trace w @ [Emit ''ledger''
             \<lparr>req_method = ''ledger'', req_id = now,
              req_params = LedgerParams path transaction\<rparr>]"
    by (simp add: split_beta trace_await pairLedgerByNotification_eq
        split: option.splits settlement.splits)
  have r: "fst (callLedger ViaLedger path transaction now rs w) =
           (case find (\<lambda>m. resp_id m = Some now) rs of
              None \<Rightarrow> None
            | Some m \<Rightarrow>
                Some (if truthy (resp_params m) \<and> typeof (resp_params m) = ''object''
                      then Inr (resp_params m) else Inl (resp_params m)))"
    using await_pairLedgerByNotification [OF wf, of now path transaction rs]
    by (simp add: split_beta split: option.splits settlement.splits)
  show ?thesis using g t r by simp
qed


theorem ledger_signer_pairs_by_notification_witness:
  "getWalletAuthState example_sdk ''pk-ledger'' = Inr (AuthState ''ledger'') \<and>
   wf_world initial_world \<and>
   fst (getSigner example_sdk ''pk-ledger'' 1000 [] initial_world) =
     Some (Inr (LedgerSigner ViaLedger)) \<and>
   trace (snd (callLedger ViaLedger [44, 607, 0] ''transfer'' 1000 [] initial_world)) =
     [Emit ''ledger'' \<lparr>req_method = ''ledger'', req_id = 1000,
                        req_params = LedgerParams [44, 607, 0] ''transfer''\<rparr>] \<and>
   fst (callLedger ViaLedger [44, 607, 0] ''transfer'' 1000 [] initial_world) = None \<and>
   fst (callLedger ViaLedger [44, 607, 0] ''transfer'' 1000
          [\<lparr>resp_id = Some 7, resp_params = JObject ''other''\<rparr>,
           \<lparr>resp_id = Some 1000, resp_params = JObject ''signed''\<rparr>] initial_world) =
     Some (Inr (JObject ''signed'')) \<and>
   fst (callLedger ViaLedger [44, 607, 0] ''transfer'' 1000
          [\<lparr>resp_id = Some 1000, resp_params = JString ''refused''\<rparr>] initial_world) =
     Some (Inl (JString ''refused''))"
proof -
  have a: "getWalletAuthState example_sdk ''pk-ledger'' = Inr (AuthState ''ledger'')"
    by (simp add: example_sdk_def)
  have t: "trace initial_world = []" by (simp add: initial_world_def)
  note th = ledger_signer_pairs_by_notification [OF a _ wf_world_initial,
      of 1000 "[]" initial_world "[44, 607, 0]" "''transfer''" 1000]
  show ?thesis
    using a wf_world_initial th [of "[]"]
      th [of "[\<lparr>resp_id = Some 7, resp_params = JObject ''other''\<rparr>,
               \<lparr>resp_id = Some 1000, resp_params = JObject ''signed''\<rparr>]"]
      th [of "[\<lparr>resp_id = Some 1000, resp_params = JString ''refused''\<rparr>]"]
    by (simp add: t)
qed


section \<open>The claims about the connection session manager\<close>

text \<open>
  C2: \<open>disconnect(wallet, 'all')\<close> returns the wallet's whole prior connection list as
  removed, and the list persisted for the wallet afterwards is empty: the write is that
  of the empty list to the wallet's key.
\<close>

theorem disconnect_all_empties_and_returns_prior:
  "fst (disconnectFromWallet st AllConnections w) = getTonWalletConnections st w \<and>
   getTonWalletConnections (snd (disconnectFromWallet st AllConnections w)) w = [] \<and>
   snd (disconnectFromWallet st AllConnections w) = setAccountConnection st w []"
  by (simp add: disconnectFromWallet_All getTonWalletConnections_def setAccountConnection_def)


theorem disconnect_all_witness:
  "fst (disconnectFromWallet example_storage AllConnections (example_wallet ''W'')) = [example_conn ''a'', example_conn ''b''] \<and>
   getTonWalletConnections (snd (disconnectFromWallet example_storage AllConnections (example_wallet ''W'')))
     (example_wallet ''W'') = []"
  using disconnect_all_empties_and_returns_prior [of example_storage "example_wallet ''W''"]
  by (simp add: getTonWalletConnections_def setAccountConnection_def example_storage_def
      example_wallet_def)


text \<open>
  C3: \<open>disconnect(wallet, connection)\<close> with a specific connection leaves for the
  wallet exactly the stored connections whose \<open>clientSessionId\<close> differs from the
  target's, unchanged and in their order (the filter of the prior list), whatever the
  length of the list; the lists of all other wallets are as before.
\<close>

theorem disconnect_specific_removes_only_matching:
  "getTonWalletConnections (snd (disconnectFromWallet st (Specific c) w)) w =
     filter (\<lambda>item. clientSessionId c \<noteq> clientSessionId item) (getTonWalletConnections st w) \<and>
   snd (disconnectFromWallet st (Specific c) w) =
     setAccountConnection st w
       (filter (\<lambda>item. clientSessionId c \<noteq> clientSessionId item) (getTonWalletConnections st w))"
  by (simp add: disconnectFromWallet_Specific getTonWalletConnections_def setAccountConnection_def)


theorem disconnect_specific_witness:
  "getTonWalletConnections
     (snd (disconnectFromWallet example_storage (Specific (example_conn ''a'')) (example_wallet ''W'')))
     (example_wallet ''W'') = [example_conn ''b''] \<and>
   getTonWalletConnections
     (snd (disconnectFromWallet example_storage (Specific (example_conn ''a'')) (example_wallet ''W'')))
     (example_wallet ''V'') = [example_conn ''c'']"
  using disconnect_specific_removes_only_matching
          [of example_storage "example_conn ''a''" "example_wallet ''W''"]
  by (simp add: getTonWalletConnections_def setAccountConnection_def example_storage_def
      example_wallet_def example_conn_def)


text \<open>
  C9: after a first \<open>disconnect(wallet, 'all')\<close> the wallet's list is empty, a second
  one returns the empty removal list and leaves the wallet's list empty again.
\<close>

theorem disconnect_all_twice:
  "getTonWalletConnections (snd (disconnectFromWallet st AllConnections w)) w = [] \<and>
   fst (disconnectFromWallet (snd (disconnectFromWallet st AllConnections w)) AllConnections w) = [] \<and>
   getTonWalletConnections
     (snd (disconnectFromWallet (snd (disconnectFromWallet st AllConnections w)) AllConnections w))
     w = []"
  by (simp add: disconnectFromWallet_All getTonWalletConnections_def)


theorem disconnect_all_twice_witness:
  "fst (disconnectFromWallet example_storage AllConnections (example_wallet ''W'')) = [example_conn ''a'', example_conn ''b''] \<and>
   fst (disconnectFromWallet
          (snd (disconnectFromWallet example_storage AllConnections (example_wallet ''W'')))
          AllConnections (example_wallet ''W'')) = []"
  using disconnect_all_twice [of example_storage "example_wallet ''W''"]
  by (simp add: disconnectFromWallet_All example_storage_def example_wallet_def)


text \<open>
  C10: \<open>disconnect(wallet, c)\<close> with a specific connection \<open>c\<close> always returns the
  singleton \<open>[c]\<close>. When no stored connection of the wallet has the
  \<open>clientSessionId\<close> of \<open>c\<close>, the list written back is the prior one, the storage
  is as before, and \<open>c\<close> itself was never stored for the wallet.
\<close>

theorem disconnect_specific_returns_argument:
  "fst (disconnectFromWallet st (Specific c) w) = [c] \<and>
   (list_all (\<lambda>item. clientSessionId item \<noteq> clientSessionId c) (getTonWalletConnections st w)
      \<longrightarrow> getTonWalletConnections (snd (disconnectFromWallet st (Specific c) w)) w =
             getTonWalletConnections st w \<and>
           snd (disconnectFromWallet st (Specific c) w) = st \<and>
           c \<notin> set (getTonWalletConnections st w))"
proof -
  have "filter (\<lambda>item. clientSessionId c \<noteq> clientSessionId item) xs = xs"
    if "list_all (\<lambda>item. clientSessionId item \<noteq> clientSessionId c) xs" for xs
    using that by (induction xs) auto
  then show ?thesis
    by (auto simp: disconnectFromWallet_Specific getTonWalletConnections_def list_all_iff)
qed


theorem disconnect_specific_returns_argument_witness:
  "list_all (\<lambda>item. clientSessionId item \<noteq> clientSessionId (example_conn ''z''))
     (getTonWalletConnections example_storage (example_wallet ''W'')) \<and>
   fst (disconnectFromWallet example_storage (Specific (example_conn ''z'')) (example_wallet ''W'')) = [example_conn ''z''] \<and>
   getTonWalletConnections
     (snd (disconnectFromWallet example_storage (Specific (example_conn ''z'')) (example_wallet ''W'')))
     (example_wallet ''W'') = [example_conn ''a'', example_conn ''b''] \<and>
   example_conn ''z'' \<notin> set (getTonWalletConnections example_storage (example_wallet ''W''))"
proof -
  have h: "list_all (\<lambda>item. clientSessionId item \<noteq> clientSessionId (example_conn ''z''))
             (getTonWalletConnections example_storage (example_wallet ''W''))"
    by (simp add: getTonWalletConnections_def example_storage_def example_wallet_def example_conn_def)
  have s: "getTonWalletConnections example_storage (example_wallet ''W'') = [example_conn ''a'', example_conn ''b'']"
    by (simp add: getTonWalletConnections_def example_storage_def example_wallet_def)
  show ?thesis
    using h s disconnect_specific_returns_argument
                [of example_storage "example_conn ''z''" "example_wallet ''W''"]
    by simp
qed

text \<open>
  C8, as amended: when the target environment is \<open>extension\<close> and the active wallet
  is a standard TON wallet, the per-wallet disconnect is applied to every wallet of
  every tracked standard account, each on the storage as it was before the call. The
  removal list is the concatenation, in the wallets' order, of the per-wallet removal
  lists; each of these wallets then holds what the per-wallet operation leaves it, and
  every other key of the storage, a wallet of another kind of account among them, is
  as before. The mutation pushes the removal list on the subject (unless \<open>skipEmit\<close>)
  and unsubscribes each of its session ids (when the push service is present). When
  the active wallet is not a standard TON wallet, the mutation throws
  \<open>Only standard ton wallets can be disconnected\<close> instead, before any wallet is read
  or written.
\<close>

theorem extension_disconnect_fans_out:
  assumes ws: "ws = concat (map allTonWallets (filter isAccountTonWalletStandard accounts))"
  shows "fst (connectionsToDisconnect ''extension'' (app_storage a) connection aw accounts) =
           concat (map (\<lambda>w. fst (disconnectFromWallet (app_storage a) connection w)) ws) \<and>
         (\<forall>w \<in> set ws.
            getTonWalletConnections
              (snd (connectionsToDisconnect ''extension'' (app_storage a) connection aw accounts)) w =
            getTonWalletConnections (snd (disconnectFromWallet (app_storage a) connection w)) w) \<and>
         (\<forall>k. k \<notin> wallet_id ` set ws \<longrightarrow>
            snd (connectionsToDisconnect ''extension'' (app_storage a) connection aw accounts) k =
            app_storage a k) \<and>
         disconnectTonConnectApp ''extension'' notifications skipEmit wallet accounts connection a =
           (case wallet of
              OtherContract i \<Rightarrow> Inl (JError ''Only standard ton wallets can be disconnected'')
            | StandardWallet sw \<Rightarrow>
                Inr (a\<lparr>app_storage :=
                         snd (connectionsToDisconnect ''extension'' (app_storage a) connection sw
                                accounts),
                       manuallyDisconnected :=
                         (if skipEmit then manuallyDisconnected a
                          else manuallyDisconnected a @
                            [concat (map (\<lambda>w. fst (disconnectFromWallet (app_storage a) connection w))
                                       ws)]),
                       unsubscribed :=
                         (if notifications
                          then unsubscribed a @ map clientSessionId
                            (concat (map (\<lambda>w. fst (disconnectFromWallet (app_storage a) connection w))
                                       ws))
                          else unsubscribed a),
                       invalidations := Suc (invalidations a)\<rparr>))"
proof -
  let ?st = "app_storage a"
  have r: "connectionsToDisconnect ''extension'' ?st connection x accounts =
             (concat (fst (disconnectFromWallets ?st connection ws)),
              snd (disconnectFromWallets ?st connection ws))" for x
    by (simp add: connectionsToDisconnect_def ws split_beta)
  have f: "fst (connectionsToDisconnect ''extension'' ?st connection x accounts) =
           concat (map (\<lambda>w. fst (disconnectFromWallet ?st connection w)) ws)" for x
    by (simp add: r fst_disconnectFromWallets)
  have s1: "getTonWalletConnections
              (snd (connectionsToDisconnect ''extension'' ?st connection aw accounts)) w =
            getTonWalletConnections (snd (disconnectFromWallet ?st connection w)) w"
    if "w \<in> set ws" for w
    using that unfolding written_by_disconnectFromWallet
    by (simp add: r snd_disconnectFromWallets getTonWalletConnections_def)
  have s2: "snd (connectionsToDisconnect ''extension'' ?st connection aw accounts) k = ?st k"
    if "k \<notin> wallet_id ` set ws" for k
    using that by (simp add: r snd_disconnectFromWallets)
  have m: "disconnectTonConnectApp ''extension'' notifications skipEmit wallet accounts connection a =
           (case wallet of
              OtherContract i \<Rightarrow> Inl (JError ''Only standard ton wallets can be disconnected'')
            | StandardWallet sw \<Rightarrow>
                Inr (a\<lparr>app_storage :=
                         snd (connectionsToDisconnect ''extension'' ?st connection sw accounts),
                       manuallyDisconnected :=
                         (if skipEmit then manuallyDisconnected a
                          else manuallyDisconnected a @
                            [concat (map (\<lambda>w. fst (disconnectFromWallet ?st connection w)) ws)]),
                       unsubscribed :=
                         (if notifications
                          then unsubscribed a @ map clientSessionId
                            (concat (map (\<lambda>w. fst (disconnectFromWallet ?st connection w)) ws))
                          else unsubscribed a),
                       invalidations := Suc (invalidations a)\<rparr>))"
    by (cases wallet) (simp_all add: disconnectTonConnectApp_def split_beta Let_def f)
  show ?thesis
  proof (intro conjI ballI allI impI)
    show "fst (connectionsToDisconnect ''extension'' ?st connection aw accounts) =
          concat (map (\<lambda>w. fst (disconnectFromWallet ?st connection w)) ws)"
      by (rule f)
  qed (rule s1 s2 m; assumption)+
qed

text \<open>
  Three wallets of two standard accounts beside a wallet of another account, and one
  wallet tracked twice: both of its calls read the list before either writes.
\<close>

theorem extension_disconnect_fans_out_witness:
  "fst (connectionsToDisconnect ''extension'' (app_storage example_app) AllConnections
          (example_wallet ''W'') example_accounts) =
     [example_conn ''a'', example_conn ''b'', example_conn ''c''] \<and>
   snd (connectionsToDisconnect ''extension'' (app_storage example_app) AllConnections
          (example_wallet ''W'') example_accounts) ''X'' = [example_conn ''d''] \<and>
   getTonWalletConnections
     (snd (connectionsToDisconnect ''extension'' (app_storage example_app) AllConnections
          (example_wallet ''W'') example_accounts)) (example_wallet ''V'') = [] \<and>
   disconnectTonConnectApp ''extension'' True False (StandardWallet (example_wallet ''W''))
       example_accounts AllConnections example_app =
     Inr (example_app
       \<lparr>app_storage :=
          snd (connectionsToDisconnect ''extension'' (app_storage example_app) AllConnections
                 (example_wallet ''W'') example_accounts),
        manuallyDisconnected := [[example_conn ''a'', example_conn ''b'', example_conn ''c'']],
        unsubscribed := [''a'', ''b'', ''c''],
        invalidations := 1\<rparr>) \<and>
   fst (connectionsToDisconnect ''extension'' (app_storage example_app) AllConnections
          (example_wallet ''W'')
          [AccountTonWalletStandard [example_wallet ''W''],
           AccountTonWalletStandard [example_wallet ''W'']]) =
     [example_conn ''a'', example_conn ''b'', example_conn ''a'', example_conn ''b'']"
proof -
  have v: "example_wallet ''V'' \<in> set [example_wallet ''W'', example_wallet ''V'', example_wallet ''U'']"
    by simp
  have x: "''X'' \<notin> wallet_id ` set [example_wallet ''W'', example_wallet ''V'', example_wallet ''U'']"
    by (simp add: example_wallet_def)
  note th = extension_disconnect_fans_out
      [of "[example_wallet ''W'', example_wallet ''V'', example_wallet ''U'']" example_accounts
          example_app AllConnections "example_wallet ''W''" True False
          "StandardWallet (example_wallet ''W'')"]
  have e: "[example_wallet ''W'', example_wallet ''V'', example_wallet ''U''] =
           concat (map allTonWallets (filter isAccountTonWalletStandard example_accounts))"
    by (simp add: example_accounts_def)
  note th1 = th [OF e]
  have d: "[example_wallet ''W'', example_wallet ''W''] =
           concat (map allTonWallets (filter isAccountTonWalletStandard
             [AccountTonWalletStandard [example_wallet ''W''],
              AccountTonWalletStandard [example_wallet ''W'']]))"
    by simp
  note th2 = extension_disconnect_fans_out [OF d, of example_app AllConnections
      "example_wallet ''W''" True False "StandardWallet (example_wallet ''W'')"]
  have a1: "fst (connectionsToDisconnect ''extension'' (app_storage example_app) AllConnections
          (example_wallet ''W'') example_accounts) =
     [example_conn ''a'', example_conn ''b'', example_conn ''c'']"
    using th1
    by (simp add: example_wallet_def example_app_def example_storage_def disconnectFromWallet_All)
  have a2: "snd (connectionsToDisconnect ''extension'' (app_storage example_app) AllConnections
          (example_wallet ''W'') example_accounts) ''X'' = [example_conn ''d'']"
    using th1 x by (simp add: example_app_def example_storage_def)
  have a3: "getTonWalletConnections
     (snd (connectionsToDisconnect ''extension'' (app_storage example_app) AllConnections
          (example_wallet ''W'') example_accounts)) (example_wallet ''V'') = []"
    using th1 v
    by (simp add: disconnectFromWallet_All getTonWalletConnections_def)
  have a4: "disconnectTonConnectApp ''extension'' True False (StandardWallet (example_wallet ''W''))
       example_accounts AllConnections example_app =
     Inr (example_app
       \<lparr>app_storage :=
          snd (connectionsToDisconnect ''extension'' (app_storage example_app) AllConnections
                 (example_wallet ''W'') example_accounts),
        manuallyDisconnected := [[example_conn ''a'', example_conn ''b'', example_conn ''c'']],
        unsubscribed := [''a'', ''b'', ''c''],
        invalidations := 1\<rparr>)"
    using th1
    by (simp add: example_wallet_def example_app_def example_storage_def example_conn_def
        disconnectFromWallet_All)
  have a5: "fst (connectionsToDisconnect ''extension'' (app_storage example_app) AllConnections
          (example_wallet ''W'')
          [AccountTonWalletStandard [example_wallet ''W''],
           AccountTonWalletStandard [example_wallet ''W'']]) =
     [example_conn ''a'', example_conn ''b'', example_conn ''a'', example_conn ''b'']"
    using th2
    by (simp add: example_wallet_def example_app_def example_storage_def disconnectFromWallet_All)
  show ?thesis using a1 a2 a3 a4 a5 by simp
qed

text \<open>
  The claim as stated fails where the active wallet is not a standard TON wallet: the
  mutation then throws before any wallet is touched, although a tracked account's
  wallet has a connection stored.
\<close>

theorem extension_disconnect_guard_counterexample:
  "getTonWalletConnections (app_storage example_app) (example_wallet ''V'') = [example_conn ''c''] \<and>
   disconnectTonConnectApp ''extension'' True False (OtherContract ''multisig'')
       example_accounts AllConnections example_app =
     Inl (JError ''Only standard ton wallets can be disconnected'')"
  by (simp add: disconnectTonConnectApp_def getTonWalletConnections_def example_app_def
      example_storage_def example_wallet_def)

end
